theory Spec2Isabelle
  imports Complex_Main
begin

section \<open>The NeuroSky relay: source adapter, availability probe and fan-out hub\<close>

text \<open>
  The development embeds \<^verbatim>\<open>server/services/neurosky.ts\<close> (class
  \<^verbatim>\<open>NeuroSkyService\<close>) and the \<^verbatim>\<open>broadcast\<close> function of the route module.
  JavaScript numbers are modelled as reals: the values that occur (integer eSense levels,
  halves of integer poor-signal levels, rounded and clamped demo values) are exactly
  representable, and \<^verbatim>\<open>NaN\<close> cannot come out of \<^verbatim>\<open>JSON.parse\<close> or of a
  finite clock reading.
\<close>

subsection \<open>Data model\<close>

text \<open>\<^verbatim>\<open>BrainwaveData\<close>: the reading the adapter emits.\<close>

record BrainwaveData =
  attention :: real
  meditation :: real
  signalQuality :: real
  timestamp :: nat

text \<open>
  An inbound ThinkGear message after \<^verbatim>\<open>JSON.parse\<close>. Every field is optional;
  \<open>None\<close> is JavaScript's \<^verbatim>\<open>undefined\<close>.
\<close>

record eSense_obj =
  es_attention :: "real option"
  es_meditation :: "real option"

record tg_message =
  eSense :: "eSense_obj option"
  poorSignalLevel :: "real option"
  blinkStrength :: "real option"
  rawEeg :: "real option"

text \<open>The \<^verbatim>\<open>readyState\<close> of a WebSocket.\<close>

datatype ready_state = CONNECTING | OPEN | CLOSING | CLOSED

text \<open>Timers of the runtime: the one-shot reconnect timeout and the demo interval.\<close>

datatype timer_kind = ReconnectTimeout | DemoInterval

text \<open>
  What the adapter hands to \<^verbatim>\<open>this.emit\<close>. The route module listens to
  \<open>connected\<close>, \<open>disconnected\<close>, \<open>data\<close> and \<open>error\<close>, so emitting never throws.
\<close>

datatype emitted =
    Connected
  | Disconnected
  | Data BrainwaveData
  | Blink real
  | RawEeg real nat
  | Error string

text \<open>How the promise of an \<^verbatim>\<open>async\<close> method is settled when the method returns.\<close>

datatype 'a promise = Resolved 'a | Rejected string

text \<open>The configuration after the constructor has merged the defaults.\<close>

record NeuroSkyConfig =
  port :: string
  baudRate :: nat
  autoConnect :: bool
  demoMode :: bool

text \<open>The caller's partial configuration, as the constructor receives it.\<close>

record NeuroSkyConfig_arg =
  arg_port :: "string option"
  arg_baudRate :: "nat option"
  arg_autoConnect :: "bool option"
  arg_demoMode :: "bool option"

text \<open>
  The private fields of \<^verbatim>\<open>NeuroSkyService\<close>, followed by the part of the runtime
  they refer to. A socket handle is an index into \<open>rt_sockets\<close>, a timer handle an index
  into \<open>rt_timers\<close> (the flag says whether the timer is still armed). \<open>rt_sent\<close>
  records what was written to which socket, \<open>rt_emitted\<close> the events handed to
  \<^verbatim>\<open>emit\<close>, oldest first. \<open>rt_ctor_throws\<close> says whether
  \<^verbatim>\<open>new WebSocket(...)\<close> throws synchronously in this runtime.
\<close>

record service =
  socket :: "nat option"
  isConnected :: bool
  reconnectInterval :: "nat option"
  currentData :: "BrainwaveData option"
  demoInterval :: "nat option"
  isDemoMode :: bool
  config :: NeuroSkyConfig
  rt_sockets :: "ready_state list"
  rt_timers :: "(timer_kind \<times> bool) list"
  rt_sent :: "(nat \<times> string) list"
  rt_emitted :: "emitted list"
  rt_ctor_throws :: bool

subsection \<open>Runtime primitives\<close>

definition emit :: "emitted \<Rightarrow> service \<Rightarrow> service" where
  "emit e s = s\<lparr>rt_emitted := rt_emitted s @ [e]\<rparr>"

text \<open>\<^verbatim>\<open>clearTimeout\<close> / \<^verbatim>\<open>clearInterval\<close>: disarm the timer behind a handle.\<close>

definition clearTimer :: "nat \<Rightarrow> service \<Rightarrow> service" where
  "clearTimer h s =
     (if h < length (rt_timers s)
      then s\<lparr>rt_timers := (rt_timers s)[h := (fst (rt_timers s ! h), False)]\<rparr>
      else s)"

text \<open>\<^verbatim>\<open>setTimeout\<close> / \<^verbatim>\<open>setInterval\<close>: arm a fresh timer and return its handle.\<close>

definition setTimer :: "timer_kind \<Rightarrow> service \<Rightarrow> nat \<times> service" where
  "setTimer k s = (length (rt_timers s), s\<lparr>rt_timers := rt_timers s @ [(k, True)]\<rparr>)"

text \<open>
  \<^verbatim>\<open>socket.close()\<close>: a connecting or open socket starts closing; a closing or
  closed one is left as it is.
\<close>

definition closeSocket :: "nat \<Rightarrow> service \<Rightarrow> service" where
  "closeSocket h s =
     (if h < length (rt_sockets s) \<and> (rt_sockets s ! h = CONNECTING \<or> rt_sockets s ! h = OPEN)
      then s\<lparr>rt_sockets := (rt_sockets s)[h := CLOSING]\<rparr>
      else s)"

definition readyState :: "service \<Rightarrow> nat \<Rightarrow> ready_state option" where
  "readyState s h = (if h < length (rt_sockets s) then Some (rt_sockets s ! h) else None)"

subsection \<open>Message handling (live mode)\<close>

text \<open>
  JavaScript's \<^verbatim>\<open>a || b\<close> on an optional number: \<^verbatim>\<open>undefined\<close> and \<^verbatim>\<open>0\<close>
  are both falsy, so either selects \<open>b\<close>.
\<close>

definition js_or :: "real option \<Rightarrow> real \<Rightarrow> real" where
  "js_or a b = (case a of None \<Rightarrow> b | Some x \<Rightarrow> if x = 0 then b else x)"

text \<open>\<^verbatim>\<open>Math.max(0, 100 - (poorSignalLevel * 100 / 200))\<close>.\<close>

definition quality :: "real \<Rightarrow> real" where
  "quality level = max 0 (100 - (level * 100 / 200))"

text \<open>
  \<^verbatim>\<open>handleThinkGearMessage\<close>. The first argument is the clock reading
  \<^verbatim>\<open>Date.now()\<close>. \<open>tg_data\<close> is the local \<^verbatim>\<open>data: Partial<BrainwaveData>\<close>.
\<close>

definition tg_data :: "tg_message \<Rightarrow> real option \<times> real option \<times> real option" where
  "tg_data message =
     (let att = (case eSense message of None \<Rightarrow> None
                 | Some e \<Rightarrow> Some (js_or (es_attention e) 0));
          med = (case eSense message of None \<Rightarrow> None
                 | Some e \<Rightarrow> Some (js_or (es_meditation e) 0));
          sq = (case poorSignalLevel message of None \<Rightarrow> None
                | Some level \<Rightarrow> Some (quality level))
      in (att, med, sq))"

definition merge_reading ::
  "nat \<Rightarrow> real option \<times> real option \<times> real option \<Rightarrow> BrainwaveData option \<Rightarrow> BrainwaveData" where
  "merge_reading now d cur =
     (case d of (att, med, sq) \<Rightarrow>
        \<lparr>attention = js_or att (js_or (map_option attention cur) 0),
         meditation = js_or med (js_or (map_option meditation cur) 0),
         signalQuality = js_or sq (js_or (map_option signalQuality cur) 0),
         timestamp = now\<rparr>)"

definition handleThinkGearMessage :: "nat \<Rightarrow> tg_message \<Rightarrow> service \<Rightarrow> service" where
  "handleThinkGearMessage now message s =
     (let d = tg_data message;
          s1 = (case d of (att, med, sq) \<Rightarrow>
                  if att \<noteq> None \<or> med \<noteq> None \<or> sq \<noteq> None
                  then (let r = merge_reading now d (currentData s)
                        in emit (Data r) (s\<lparr>currentData := Some r\<rparr>))
                  else s);
          s2 = (case blinkStrength message of
                  None \<Rightarrow> s1
                | Some b \<Rightarrow> if b \<noteq> 0 then emit (Blink b) s1 else s1);
          s3 = (case rawEeg message of
                  None \<Rightarrow> s2
                | Some v \<Rightarrow> if v \<noteq> 0 then emit (RawEeg v now) s2 else s2)
      in s3)"

subsection \<open>Construction\<close>

text \<open>
  The constructor: the defaults, overridden by what the caller gave, and
  \<^verbatim>\<open>this.isDemoMode = this.config.demoMode || false\<close>. The second argument fixes
  the runtime's \<open>rt_ctor_throws\<close>.
\<close>

definition merge_config :: "NeuroSkyConfig_arg \<Rightarrow> NeuroSkyConfig" where
  "merge_config a =
     \<lparr>port = (case arg_port a of None \<Rightarrow> ''/dev/ttyUSB0'' | Some p \<Rightarrow> p),
      baudRate = (case arg_baudRate a of None \<Rightarrow> 9600 | Some b \<Rightarrow> b),
      autoConnect = (case arg_autoConnect a of None \<Rightarrow> False | Some b \<Rightarrow> b),
      demoMode = (case arg_demoMode a of None \<Rightarrow> False | Some b \<Rightarrow> b)\<rparr>"

definition new_service :: "NeuroSkyConfig_arg \<Rightarrow> bool \<Rightarrow> service" where
  "new_service a throws =
     \<lparr>socket = None, isConnected = False, reconnectInterval = None, currentData = None,
      demoInterval = None, isDemoMode = demoMode (merge_config a), config = merge_config a,
      rt_sockets = [], rt_timers = [], rt_sent = [], rt_emitted = [],
      rt_ctor_throws = throws\<rparr>"

text \<open>The instance of the route module: \<^verbatim>\<open>new NeuroSkyService({ autoConnect: false })\<close>.\<close>

definition routes_service :: service where
  "routes_service =
     new_service \<lparr>arg_port = None, arg_baudRate = None, arg_autoConnect = Some False,
                  arg_demoMode = None\<rparr> False"

subsection \<open>Synthetic generation (demo mode)\<close>

text \<open>
  One tick of the generator reads the clock twice and \<^verbatim>\<open>Math.random()\<close> up to five
  times; a \<open>tick\<close> holds what these calls return, in the order the code makes them.
\<close>

record tick =
  now_time :: nat
  rnd_attention :: real
  rnd_meditation :: real
  rnd_signal :: real
  now_stamp :: nat
  rnd_blink :: real
  rnd_strength :: real

text \<open>\<^verbatim>\<open>Math.round\<close>: to the nearest integer, halves upwards.\<close>

definition js_round :: "real \<Rightarrow> real" where
  "js_round x = of_int \<lfloor>x + 1 / 2\<rfloor>"

definition demo_reading :: "tick \<Rightarrow> BrainwaveData" where
  "demo_reading tk =
     (let time = real (now_time tk) / 1000;
          baseAttention = 30 + 30 * sin (time * 0.01) + 15 * sin (time * 0.03);
          baseMeditation = 25 + 35 * cos (time * 0.008) + 20 * cos (time * 0.02);
          att = max 0 (min 100 (js_round
                  (baseAttention + 10 * (rnd_attention tk - 0.5) + 5 * sin (time * 0.1))));
          med = max 0 (min 100 (js_round
                  (baseMeditation + 8 * (rnd_meditation tk - 0.5) + 7 * cos (time * 0.12))));
          sq = max 60 (min 100 (js_round
                  (85 + 10 * sin (time * 0.005) + 5 * (rnd_signal tk - 0.5))))
      in \<lparr>attention = att, meditation = med, signalQuality = sq, timestamp = now_stamp tk\<rparr>)"

definition generateDemoData :: "tick \<Rightarrow> service \<Rightarrow> service" where
  "generateDemoData tk s =
     (let r = demo_reading tk;
          s1 = emit (Data r) (s\<lparr>currentData := Some r\<rparr>)
      in if rnd_blink tk < 0.02
         then emit (Blink (js_round (20 + 30 * rnd_strength tk))) s1
         else s1)"

definition startDemoMode :: "service \<Rightarrow> service" where
  "startDemoMode s =
     (let s1 = emit Connected (s\<lparr>isConnected := True\<rparr>);
          (h, s2) = setTimer DemoInterval s1
      in s2\<lparr>demoInterval := Some h\<rparr>)"

subsection \<open>Connecting and the socket handlers\<close>

text \<open>
  \<^verbatim>\<open>connect\<close> has no \<^verbatim>\<open>await\<close>: its promise is settled when the body returns.
  In demo mode it starts the generator. Otherwise it constructs a socket, stores the
  handle in \<^verbatim>\<open>this.socket\<close> and registers the four handlers below on it; only a
  synchronous throw of the constructor reaches the \<^verbatim>\<open>catch\<close> and rejects.
\<close>

definition connect :: "service \<Rightarrow> unit promise \<times> service" where
  "connect s =
     (if isDemoMode s then (Resolved (), startDemoMode s)
      else if rt_ctor_throws s then (Rejected ''WebSocket constructor threw'', s)
      else (Resolved (),
            s\<lparr>socket := Some (length (rt_sockets s)),
              rt_sockets := rt_sockets s @ [CONNECTING]\<rparr>))"

definition config_json :: string where
  \<open>config_json = ''{"enableRawOutput":false,"format":"Json"}''\<close>

text \<open>The \<^verbatim>\<open>open\<close> handler. It tests and writes to \<^verbatim>\<open>this.socket\<close>, the current handle.\<close>

definition on_open :: "service \<Rightarrow> service" where
  "on_open s =
     (let s1 = s\<lparr>isConnected := True\<rparr>;
          s2 = (case socket s1 of
                  None \<Rightarrow> s1
                | Some h \<Rightarrow> if readyState s1 h = Some OPEN
                            then s1\<lparr>rt_sent := rt_sent s1 @ [(h, config_json)]\<rparr>
                            else s1)
      in emit Connected s2)"

text \<open>The \<^verbatim>\<open>message\<close> handler; \<open>None\<close> is a payload on which \<^verbatim>\<open>JSON.parse\<close> throws.\<close>

definition on_message :: "nat \<Rightarrow> tg_message option \<Rightarrow> service \<Rightarrow> service" where
  "on_message now payload s =
     (case payload of None \<Rightarrow> s | Some message \<Rightarrow> handleThinkGearMessage now message s)"

definition scheduleReconnect :: "service \<Rightarrow> service" where
  "scheduleReconnect s =
     (let s1 = (case reconnectInterval s of None \<Rightarrow> s | Some h \<Rightarrow> clearTimer h s)
      in if autoConnect (config s1)
         then (let (h, s2) = setTimer ReconnectTimeout s1 in s2\<lparr>reconnectInterval := Some h\<rparr>)
         else s1)"

definition on_close :: "service \<Rightarrow> service" where
  "on_close s =
     (let s1 = emit Disconnected (s\<lparr>isConnected := False\<rparr>)
      in if autoConnect (config s1) then scheduleReconnect s1 else s1)"

definition on_error :: "string \<Rightarrow> service \<Rightarrow> service" where
  "on_error e s = emit (Error e) s"

subsection \<open>Disconnecting and the demo-mode flag\<close>

definition disconnect :: "service \<Rightarrow> service" where
  "disconnect s =
     (let s1 = (case reconnectInterval s of
                  None \<Rightarrow> s
                | Some h \<Rightarrow> (clearTimer h s)\<lparr>reconnectInterval := None\<rparr>);
          s2 = (case demoInterval s1 of
                  None \<Rightarrow> s1
                | Some h \<Rightarrow> (clearTimer h s1)\<lparr>demoInterval := None\<rparr>);
          s3 = (case socket s2 of
                  None \<Rightarrow> s2
                | Some h \<Rightarrow> (closeSocket h s2)\<lparr>socket := None\<rparr>)
      in s3\<lparr>isConnected := False, isDemoMode := False\<rparr>)"

definition enableDemoMode :: "service \<Rightarrow> service" where
  "enableDemoMode s = s\<lparr>isDemoMode := True, config := (config s)\<lparr>demoMode := True\<rparr>\<rparr>"

definition disableDemoMode :: "service \<Rightarrow> service" where
  "disableDemoMode s =
     (let s1 = s\<lparr>isDemoMode := False, config := (config s)\<lparr>demoMode := False\<rparr>\<rparr>;
          s2 = (case demoInterval s1 of
                  None \<Rightarrow> s1
                | Some h \<Rightarrow> (clearTimer h s1)\<lparr>demoInterval := None\<rparr>)
      in disconnect s2)"

definition getConnectionStatus :: "service \<Rightarrow> bool" where
  "getConnectionStatus s = isConnected s"

definition getCurrentData :: "service \<Rightarrow> BrainwaveData option" where
  "getCurrentData s = currentData s"

subsection \<open>The event loop\<close>

text \<open>
  What can happen to an adapter: a caller invokes one of the four public operations, a
  socket reports an event, or a timer fires. Handlers run to completion, one input at a
  time. Every socket made by \<open>connect\<close> carries the same four handlers, and they stay
  registered after \<open>disconnect\<close> has dropped the handle. An input the runtime cannot
  produce in the current state (an event of a closed socket, a disarmed timer) changes
  nothing. A socket is marked \<open>CLOSING\<close> when it reports an error and \<open>CLOSED\<close> when
  it reports its close; a reconnect timeout fires once, the demo interval keeps firing.
\<close>

datatype input =
    CallConnect
  | CallDisconnect
  | CallEnableDemoMode
  | CallDisableDemoMode
  | SocketOpen nat
  | SocketMessage nat nat "tg_message option"
  | SocketError nat string
  | SocketClose nat
  | TimerFires nat tick

definition set_ready :: "nat \<Rightarrow> ready_state \<Rightarrow> service \<Rightarrow> service" where
  "set_ready h r s = s\<lparr>rt_sockets := (rt_sockets s)[h := r]\<rparr>"

fun deliver :: "input \<Rightarrow> service \<Rightarrow> service" where
  "deliver CallConnect s = snd (connect s)"
| "deliver CallDisconnect s = disconnect s"
| "deliver CallEnableDemoMode s = enableDemoMode s"
| "deliver CallDisableDemoMode s = disableDemoMode s"
| "deliver (SocketOpen h) s =
     (if readyState s h = Some CONNECTING then on_open (set_ready h OPEN s) else s)"
| "deliver (SocketMessage h now payload) s =
     (if readyState s h = Some OPEN then on_message now payload s else s)"
| "deliver (SocketError h e) s =
     (if readyState s h = None \<or> readyState s h = Some CLOSED then s
      else on_error e (set_ready h CLOSING s))"
| "deliver (SocketClose h) s =
     (if readyState s h = None \<or> readyState s h = Some CLOSED then s
      else on_close (set_ready h CLOSED s))"
| "deliver (TimerFires h tk) s =
     (if h < length (rt_timers s) \<and> snd (rt_timers s ! h)
      then (case fst (rt_timers s ! h) of
              ReconnectTimeout \<Rightarrow> snd (connect (clearTimer h s))
            | DemoInterval \<Rightarrow> generateDemoData tk s)
      else s)"

fun run :: "input list \<Rightarrow> service \<Rightarrow> service" where
  "run [] s = s"
| "run (i # is) s = run is (deliver i s)"

text \<open>The upstream connections that are alive in the runtime.\<close>

definition active_sockets :: "service \<Rightarrow> nat" where
  "active_sockets s = length (filter (\<lambda>r. r = CONNECTING \<or> r = OPEN) (rt_sockets s))"

definition running_generators :: "service \<Rightarrow> nat" where
  "running_generators s = length (filter (\<lambda>t. t = (DemoInterval, True)) (rt_timers s))"

definition pending_reconnects :: "service \<Rightarrow> nat" where
  "pending_reconnects s = length (filter (\<lambda>t. t = (ReconnectTimeout, True)) (rt_timers s))"

definition active_upstreams :: "service \<Rightarrow> nat" where
  "active_upstreams s = active_sockets s + running_generators s"

subsection \<open>Availability probe\<close>

text \<open>
  \<^verbatim>\<open>checkThinkGearConnector\<close> owns one socket, one three-second timeout and the
  promise it returns. \<open>p_settled\<close> is \<open>None\<close> while the promise is pending;
  \<open>p_closeCalls\<close> counts the calls of \<^verbatim>\<open>testSocket.close()\<close>. When the
  constructor throws there is no socket (\<open>p_socket = None\<close>) and the \<^verbatim>\<open>catch\<close>
  returns \<^verbatim>\<open>false\<close>.
\<close>

record probe =
  p_socket :: "ready_state option"
  p_timeout :: bool
  p_closeCalls :: nat
  p_settled :: "bool promise option"

datatype probe_input = ProbeTimeout | ProbeOpen | ProbeError

text \<open>\<^verbatim>\<open>resolve(v)\<close>: settles a pending promise, does nothing to a settled one.\<close>

definition probe_resolve :: "bool \<Rightarrow> probe \<Rightarrow> probe" where
  "probe_resolve v p =
     (case p_settled p of None \<Rightarrow> p\<lparr>p_settled := Some (Resolved v)\<rparr> | Some _ \<Rightarrow> p)"

definition probe_close :: "probe \<Rightarrow> probe" where
  "probe_close p =
     p\<lparr>p_closeCalls := Suc (p_closeCalls p),
       p_socket := (if p_socket p = Some CONNECTING \<or> p_socket p = Some OPEN
                    then Some CLOSING else p_socket p)\<rparr>"

definition probe_on_timeout :: "probe \<Rightarrow> probe" where
  "probe_on_timeout p = probe_resolve False (probe_close p)"

definition probe_on_open :: "probe \<Rightarrow> probe" where
  "probe_on_open p = probe_resolve True (probe_close (p\<lparr>p_timeout := False\<rparr>))"

definition probe_on_error :: "probe \<Rightarrow> probe" where
  "probe_on_error p = probe_resolve False (p\<lparr>p_timeout := False\<rparr>)"

fun probe_deliver :: "probe_input \<Rightarrow> probe \<Rightarrow> probe" where
  "probe_deliver ProbeTimeout p =
     (if p_timeout p then probe_on_timeout (p\<lparr>p_timeout := False\<rparr>) else p)"
| "probe_deliver ProbeOpen p =
     (if p_socket p = Some CONNECTING then probe_on_open (p\<lparr>p_socket := Some OPEN\<rparr>) else p)"
| "probe_deliver ProbeError p =
     (if p_socket p = None \<or> p_socket p = Some CLOSED then p
      else probe_on_error (p\<lparr>p_socket := Some CLOSING\<rparr>))"

fun probe_run :: "probe_input list \<Rightarrow> probe \<Rightarrow> probe" where
  "probe_run [] p = p"
| "probe_run (i # is) p = probe_run is (probe_deliver i p)"

text \<open>The probe right after the socket was constructed and the timeout armed.\<close>

definition probe_start :: probe where
  "probe_start =
     \<lparr>p_socket = Some CONNECTING, p_timeout = True, p_closeCalls = 0, p_settled = None\<rparr>"

text \<open>
  The probe, given whether the constructor throws and the events that follow, in the
  order the runtime delivers them.
\<close>

definition checkThinkGearConnector :: "bool \<Rightarrow> probe_input list \<Rightarrow> probe" where
  "checkThinkGearConnector throws is =
     (if throws
      then \<lparr>p_socket = None, p_timeout = False, p_closeCalls = 0,
            p_settled = Some (Resolved False)\<rparr>
      else probe_run is probe_start)"

subsection \<open>Fan-out hub\<close>

text \<open>
  \<^verbatim>\<open>clients\<close> is a JavaScript \<^verbatim>\<open>Set\<close>, iterated in insertion order: a list of
  subscriber handles with their \<^verbatim>\<open>readyState\<close>. \<^verbatim>\<open>JSON.stringify\<close> is a
  parameter. The effects of a broadcast are logged in the order they happen.
\<close>

record client =
  cid :: nat
  c_readyState :: ready_state

datatype 'e hub_effect = Stringify 'e | Send nat string

fun forEach_send :: "string \<Rightarrow> client list \<Rightarrow> 'e hub_effect list" where
  "forEach_send message [] = []"
| "forEach_send message (c # cs) =
     (if c_readyState c = OPEN then Send (cid c) message # forEach_send message cs
      else forEach_send message cs)"

definition broadcast ::
  "('e \<Rightarrow> string) \<Rightarrow> 'e \<Rightarrow> client list \<Rightarrow> 'e hub_effect list \<times> client list" where
  "broadcast stringify data clients =
     (let message = stringify data
      in (Stringify data # forEach_send message clients, clients))"

fun stringify_calls :: "'e hub_effect list \<Rightarrow> 'e list" where
  "stringify_calls [] = []"
| "stringify_calls (Stringify e # fs) = e # stringify_calls fs"
| "stringify_calls (Send c m # fs) = stringify_calls fs"

fun deliveries :: "'e hub_effect list \<Rightarrow> (nat \<times> string) list" where
  "deliveries [] = []"
| "deliveries (Stringify e # fs) = deliveries fs"
| "deliveries (Send c m # fs) = (c, m) # deliveries fs"

subsection \<open>Notions the properties are stated with\<close>

text \<open>
  An adapter tracks its timers when every armed timer of the runtime is the one behind
  \<^verbatim>\<open>reconnectInterval\<close> or \<^verbatim>\<open>demoInterval\<close>.
\<close>

definition tracked :: "service \<Rightarrow> bool" where
  "tracked s =
     (\<forall>h \<in> set [0..<length (rt_timers s)].
        snd (rt_timers s ! h) \<longrightarrow> reconnectInterval s = Some h \<or> demoInterval s = Some h)"

text \<open>The readings among a sequence of emitted events.\<close>

fun readings :: "emitted list \<Rightarrow> BrainwaveData list" where
  "readings [] = []"
| "readings (Data d # es) = d # readings es"
| "readings (e # es) = readings es"

text \<open>What an adapter emitted after it was in state \<open>s\<close>.\<close>

definition emitted_since :: "service \<Rightarrow> service \<Rightarrow> emitted list" where
  "emitted_since s s' = drop (length (rt_emitted s)) (rt_emitted s')"

text \<open>Consecutive ticks of the generator, and consecutive inbound messages.\<close>

fun run_ticks :: "tick list \<Rightarrow> service \<Rightarrow> service" where
  "run_ticks [] s = s"
| "run_ticks (tk # tks) s = run_ticks tks (generateDemoData tk s)"

fun handle_all :: "(nat \<times> tg_message) list \<Rightarrow> service \<Rightarrow> service" where
  "handle_all [] s = s"
| "handle_all ((now, message) # ms) s = handle_all ms (handleThinkGearMessage now message s)"

definition tick_events :: "tick \<Rightarrow> emitted list" where
  "tick_events tk =
     Data (demo_reading tk) #
     (if rnd_blink tk < 0.02 then [Blink (js_round (20 + 30 * rnd_strength tk))] else [])"

definition demo_in_range :: "BrainwaveData \<Rightarrow> bool" where
  "demo_in_range d =
     (0 \<le> attention d \<and> attention d \<le> 100 \<and>
      0 \<le> meditation d \<and> meditation d \<le> 100 \<and>
      60 \<le> signalQuality d \<and> signalQuality d \<le> 100)"

text \<open>The value of each field that a message carries, if it carries one.\<close>

definition observed_attention :: "tg_message \<Rightarrow> real option" where
  "observed_attention message =
     (case eSense message of None \<Rightarrow> None | Some e \<Rightarrow> es_attention e)"

definition observed_meditation :: "tg_message \<Rightarrow> real option" where
  "observed_meditation message =
     (case eSense message of None \<Rightarrow> None | Some e \<Rightarrow> es_meditation e)"

definition observed_signalQuality :: "tg_message \<Rightarrow> real option" where
  "observed_signalQuality message = map_option quality (poorSignalLevel message)"

text \<open>
  The specification's merge rule, in its own words: a field of a reading is the most
  recently observed value of that field, or 0 if it was never observed.
\<close>

fun most_recent_from :: "real \<Rightarrow> ('m \<Rightarrow> real option) \<Rightarrow> 'm list \<Rightarrow> real" where
  "most_recent_from acc f [] = acc"
| "most_recent_from acc f (m # ms) =
     most_recent_from (case f m of None \<Rightarrow> acc | Some v \<Rightarrow> v) f ms"

definition spec_most_recent :: "('m \<Rightarrow> real option) \<Rightarrow> 'm list \<Rightarrow> real" where
  "spec_most_recent f ms = most_recent_from 0 f ms"

text \<open>A value the code's \<^verbatim>\<open>||\<close> chain lets through: an observed one other than 0.\<close>

definition nonzero :: "('m \<Rightarrow> real option) \<Rightarrow> 'm \<Rightarrow> real option" where
  "nonzero f m = (case f m of None \<Rightarrow> None | Some v \<Rightarrow> if v = 0 then None else Some v)"

text \<open>The fields of the last reading, 0 where there is none yet.\<close>

definition current_or_0 :: "(BrainwaveData \<Rightarrow> real) \<Rightarrow> service \<Rightarrow> real" where
  "current_or_0 field s = (case currentData s of None \<Rightarrow> 0 | Some d \<Rightarrow> field d)"

text \<open>Sample inputs: a tick at clock 0 with every random draw at its midpoint, and two
  messages, the second of which reports 0 for both eSense values and the worst signal.\<close>

definition tick0 :: tick where
  "tick0 =
     \<lparr>now_time = 0, rnd_attention = 1 / 2, rnd_meditation = 1 / 2, rnd_signal = 1 / 2,
      now_stamp = 0, rnd_blink = 1 / 2, rnd_strength = 0\<rparr>"

definition msg_focused :: tg_message where
  "msg_focused =
     \<lparr>eSense = Some \<lparr>es_attention = Some 50, es_meditation = Some 40\<rparr>,
      poorSignalLevel = Some 0, blinkStrength = None, rawEeg = None\<rparr>"

definition msg_zeroed :: tg_message where
  "msg_zeroed =
     \<lparr>eSense = Some \<lparr>es_attention = Some 0, es_meditation = Some 0\<rparr>,
      poorSignalLevel = Some 200, blinkStrength = None, rawEeg = None\<rparr>"

section \<open>Properties\<close>

subsection \<open>Signal-quality mapping\<close>

lemma quality_on_domain: "0 \<le> level \<Longrightarrow> level \<le> 200 \<Longrightarrow> quality level = 100 - level / 2"
  by (simp add: quality_def max_def)

text \<open>
  Claim C5. The mapping \<open>quality level = max 0 (100 - level * 100 / 200)\<close> sends 0 to 100
  and 200 to 0, and on the domain from 0 to 200 it is decreasing: a larger poor-signal
  level never gives a larger quality, and a strictly larger level gives a strictly smaller
  quality.
\<close>

theorem quality_monotone_decreasing:
  "quality 0 = 100 \<and> quality 200 = 0 \<and>
   (\<forall>a b. 0 \<le> a \<and> a \<le> b \<and> b \<le> 200 \<longrightarrow> quality b \<le> quality a) \<and>
   (\<forall>a b. 0 \<le> a \<and> a < b \<and> b \<le> 200 \<longrightarrow> quality b < quality a)"
proof -
  have ends: "quality 0 = 100" "quality 200 = 0"
    by (simp_all add: quality_def)
  have weak: "quality b \<le> quality a" if "0 \<le> a" "a \<le> b" "b \<le> 200" for a b
    using that by (simp add: quality_on_domain)
  have strict: "quality b < quality a" if "0 \<le> a" "a < b" "b \<le> 200" for a b
    using that by (simp add: quality_on_domain)
  from ends weak strict show ?thesis by blast
qed

theorem quality_monotone_decreasing_witness:
  "(0::real) \<le> 50 \<and> (50::real) < 120 \<and> (120::real) \<le> 200 \<and>
   quality 120 < quality 50 \<and> quality 120 \<le> quality 50 \<and>
   quality 50 = 75 \<and> quality 120 = 40"
proof -
  have h: "(0::real) \<le> 50 \<and> (50::real) < 120 \<and> (120::real) \<le> 200" by simp
  have h': "(0::real) \<le> 50 \<and> (50::real) \<le> 120 \<and> (120::real) \<le> 200" by simp
  from quality_monotone_decreasing have
    "quality 120 < quality 50" "quality 120 \<le> quality 50"
    using h h' by blast+
  moreover have "quality 50 = 75" "quality 120 = 40"
    by (simp_all add: quality_def)
  ultimately show ?thesis by simp
qed

subsection \<open>Merging partial messages\<close>

lemma handleThinkGearMessage_field:
  "current_or_0 attention (handleThinkGearMessage now m s) =
     (case nonzero observed_attention m of
        None \<Rightarrow> current_or_0 attention s | Some v \<Rightarrow> v)"
  "current_or_0 meditation (handleThinkGearMessage now m s) =
     (case nonzero observed_meditation m of
        None \<Rightarrow> current_or_0 meditation s | Some v \<Rightarrow> v)"
  "current_or_0 signalQuality (handleThinkGearMessage now m s) =
     (case nonzero observed_signalQuality m of
        None \<Rightarrow> current_or_0 signalQuality s | Some v \<Rightarrow> v)"
  by (auto simp add: current_or_0_def handleThinkGearMessage_def tg_data_def merge_reading_def
        nonzero_def observed_attention_def observed_meditation_def observed_signalQuality_def
        js_or_def emit_def Let_def split: option.splits)

text \<open>
  What the merge computes: each field of the current reading is the most recent observed
  value other than 0, or 0 if there was none.
\<close>

lemma handle_all_last_nonzero:
  "current_or_0 attention (handle_all ms s) =
     most_recent_from (current_or_0 attention s) (nonzero observed_attention) (map snd ms)"
  "current_or_0 meditation (handle_all ms s) =
     most_recent_from (current_or_0 meditation s) (nonzero observed_meditation) (map snd ms)"
  "current_or_0 signalQuality (handle_all ms s) =
     most_recent_from (current_or_0 signalQuality s) (nonzero observed_signalQuality)
       (map snd ms)"
  by (induction ms s rule: handle_all.induct) (simp_all add: handleThinkGearMessage_field)

text \<open>
  Claim C2. Each field of an emitted reading should be the most recently observed value of
  that field, or 0 if it was never observed. After a message with attention 50, meditation 40
  and poor-signal level 0, a message that reports attention 0, meditation 0 and poor-signal
  level 200 is merged into a reading that still carries 50, 40 and quality 100, while the
  most recently observed values are 0, 0 and 0: a 0 is treated as absent by the
  \<^verbatim>\<open>||\<close> chain.
\<close>

theorem zero_value_keeps_stale_reading:
  "currentData (handle_all [(1, msg_focused), (2, msg_zeroed)] routes_service) =
     Some \<lparr>attention = 50, meditation = 40, signalQuality = 100, timestamp = 2\<rparr> \<and>
   readings (rt_emitted (handle_all [(1, msg_focused), (2, msg_zeroed)] routes_service)) =
     [\<lparr>attention = 50, meditation = 40, signalQuality = 100, timestamp = 1\<rparr>,
      \<lparr>attention = 50, meditation = 40, signalQuality = 100, timestamp = 2\<rparr>] \<and>
   spec_most_recent observed_attention [msg_focused, msg_zeroed] = 0 \<and>
   spec_most_recent observed_meditation [msg_focused, msg_zeroed] = 0 \<and>
   spec_most_recent observed_signalQuality [msg_focused, msg_zeroed] = 0"
  by (simp add: msg_focused_def msg_zeroed_def routes_service_def new_service_def
        merge_config_def handleThinkGearMessage_def tg_data_def merge_reading_def js_or_def
        quality_def emit_def spec_most_recent_def observed_attention_def
        observed_meditation_def observed_signalQuality_def Let_def)

subsection \<open>Fan-out\<close>

lemma deliveries_forEach_send:
  "deliveries (forEach_send m cs :: 'e hub_effect list) =
     map (\<lambda>c. (cid c, m)) (filter (\<lambda>c. c_readyState c = OPEN) cs)"
  by (induction cs) simp_all

lemma stringify_calls_forEach_send:
  "stringify_calls (forEach_send m cs :: 'e hub_effect list) = []"
  by (induction cs) simp_all

text \<open>
  Claim C8. For every event and every set of subscribers, \<open>broadcast\<close> serializes the
  event exactly once, sends that one serialized payload to exactly the subscribers whose
  channel is open, in the order of the set, skips the others, and returns the set of
  subscribers unchanged; it has no error outcome.
\<close>

theorem broadcast_fanout:
  "snd (broadcast stringify e cs) = cs \<and>
   stringify_calls (fst (broadcast stringify e cs)) = [e] \<and>
   deliveries (fst (broadcast stringify e cs)) =
     map (\<lambda>c. (cid c, stringify e)) (filter (\<lambda>c. c_readyState c = OPEN) cs)"
  by (simp add: broadcast_def deliveries_forEach_send stringify_calls_forEach_send)

subsection \<open>Synthetic readings\<close>

lemma demo_reading_in_range: "demo_in_range (demo_reading tk)"
  by (simp add: demo_in_range_def demo_reading_def Let_def)

lemma generateDemoData_emitted:
  "rt_emitted (generateDemoData tk s) = rt_emitted s @ tick_events tk"
  by (simp add: generateDemoData_def tick_events_def emit_def Let_def)

lemma generateDemoData_current:
  "currentData (generateDemoData tk s) = Some (demo_reading tk)"
  by (simp add: generateDemoData_def emit_def Let_def)

lemma run_ticks_emitted:
  "rt_emitted (run_ticks tks s) = rt_emitted s @ concat (map tick_events tks)"
  by (induction tks arbitrary: s) (simp_all add: generateDemoData_emitted)

lemma readings_append: "readings (es @ fs) = readings es @ readings fs"
  by (induction es rule: readings.induct) simp_all

lemma readings_tick_events: "readings (concat (map tick_events tks)) = map demo_reading tks"
  by (induction tks) (simp_all add: readings_append tick_events_def)

lemma run_ticks_readings:
  "readings (emitted_since s (run_ticks tks s)) = map demo_reading tks"
  by (simp add: emitted_since_def run_ticks_emitted readings_tick_events)

text \<open>
  Claim C9. For every number of consecutive demo ticks (so also for 1000 or more), every
  clock reading and every value of the random draws, each tick emits one reading, and in
  every reading emitted attention and meditation lie in [0,100] and signalQuality lies in
  [60,100].
\<close>

theorem demo_values_in_range:
  "length (readings (emitted_since s (run_ticks tks s))) = length tks \<and>
   (\<forall>d \<in> set (readings (emitted_since s (run_ticks tks s))). demo_in_range d)"
  by (auto simp add: run_ticks_readings demo_reading_in_range)

theorem demo_values_in_range_witness:
  "length (readings (emitted_since routes_service
             (run_ticks (replicate 1000 tick0) routes_service))) = 1000 \<and>
   \<lparr>attention = 30, meditation = 87, signalQuality = 85, timestamp = 0\<rparr>
     \<in> set (readings (emitted_since routes_service
               (run_ticks (replicate 1000 tick0) routes_service))) \<and>
   demo_in_range \<lparr>attention = 30, meditation = 87, signalQuality = 85, timestamp = 0\<rparr>"
proof -
  have val: "demo_reading tick0 =
      \<lparr>attention = 30, meditation = 87, signalQuality = 85, timestamp = 0\<rparr>"
    by (simp add: demo_reading_def tick0_def js_round_def Let_def)
  have mem: "\<lparr>attention = 30, meditation = 87, signalQuality = 85, timestamp = 0\<rparr>
      \<in> set (readings (emitted_since routes_service
                (run_ticks (replicate 1000 tick0) routes_service)))"
    by (simp add: run_ticks_readings val)
  from demo_values_in_range [of routes_service "replicate 1000 tick0"] mem
  show ?thesis by simp
qed

subsection \<open>Adapter lifecycle\<close>

lemmas lifecycle_defs =
  routes_service_def new_service_def merge_config_def connect_def readyState_def
  set_ready_def on_open_def on_close_def on_error_def emit_def startDemoMode_def
  enableDemoMode_def disableDemoMode_def disconnect_def clearTimer_def closeSocket_def
  setTimer_def scheduleReconnect_def Let_def

lemma connect_live_adds_socket:
  assumes "\<not> isDemoMode s" "\<not> rt_ctor_throws s"
  shows "rt_sockets (snd (connect s)) = rt_sockets s @ [CONNECTING]"
    and "active_sockets (snd (connect s)) = Suc (active_sockets s)"
    and "fst (connect s) = Resolved ()"
  using assms by (simp_all add: connect_def active_sockets_def)

lemma connect_demo_adds_generator:
  assumes "isDemoMode s"
  shows "rt_timers (snd (connect s)) = rt_timers s @ [(DemoInterval, True)]"
    and "running_generators (snd (connect s)) = Suc (running_generators s)"
    and "rt_sockets (snd (connect s)) = rt_sockets s"
  using assms
  by (simp_all add: connect_def startDemoMode_def setTimer_def emit_def running_generators_def
        Let_def)

text \<open>
  Claim C1. At most one upstream connection, socket or generator, should be active at any
  time. \<open>connect\<close> neither checks for nor tears down what is already active: two calls
  in live mode leave two sockets connecting, and open once both handshakes complete; two
  calls in demo mode leave two generators running; a call in demo mode after a live
  connection leaves one socket and one generator. The first generator's handle is
  overwritten, so it keeps running after \<open>disconnect\<close>.
\<close>

theorem connect_twice_two_upstreams:
  "active_upstreams (run [CallConnect, CallConnect] routes_service) = 2 \<and>
   rt_sockets (run [CallConnect, SocketOpen 0, CallConnect, SocketOpen 1] routes_service)
     = [OPEN, OPEN] \<and>
   active_upstreams (run [CallConnect, SocketOpen 0, CallConnect, SocketOpen 1] routes_service)
     = 2 \<and>
   rt_timers (run [CallEnableDemoMode, CallConnect, CallConnect] routes_service)
     = [(DemoInterval, True), (DemoInterval, True)] \<and>
   active_upstreams (run [CallEnableDemoMode, CallConnect, CallConnect] routes_service) = 2 \<and>
   active_sockets (run [CallConnect, SocketOpen 0, CallEnableDemoMode, CallConnect] routes_service)
     = 1 \<and>
   running_generators
     (run [CallConnect, SocketOpen 0, CallEnableDemoMode, CallConnect] routes_service) = 1 \<and>
   running_generators
     (run [CallEnableDemoMode, CallConnect, CallConnect, CallDisconnect] routes_service) = 1"
  by (simp add: lifecycle_defs active_upstreams_def active_sockets_def running_generators_def)

lemma enableDemoMode_frame:
  "socket (enableDemoMode s) = socket s"
  "rt_sockets (enableDemoMode s) = rt_sockets s"
  "rt_timers (enableDemoMode s) = rt_timers s"
  "demoInterval (enableDemoMode s) = demoInterval s"
  "isConnected (enableDemoMode s) = isConnected s"
  by (simp_all add: enableDemoMode_def)

text \<open>
  Claim C3. Enabling demo mode while a live socket is open should close the live
  connection and leave the adapter connected through the generator only. After
  \<open>connect\<close>, the socket's \<open>open\<close> event and \<open>enableDemoMode\<close>, the socket is still
  open and still the adapter's socket, the adapter still reports connected, and no
  generator has been started: only the flag changed.
\<close>

theorem enableDemoMode_keeps_live_socket:
  "readyState (run [CallConnect, SocketOpen 0, CallEnableDemoMode] routes_service) 0
     = Some OPEN \<and>
   socket (run [CallConnect, SocketOpen 0, CallEnableDemoMode] routes_service) = Some 0 \<and>
   isConnected (run [CallConnect, SocketOpen 0, CallEnableDemoMode] routes_service) \<and>
   isDemoMode (run [CallConnect, SocketOpen 0, CallEnableDemoMode] routes_service) \<and>
   rt_timers (run [CallConnect, SocketOpen 0, CallEnableDemoMode] routes_service) = []"
  by (simp add: lifecycle_defs)

lemma on_close_retry:
  "pending_reconnects (on_close s) =
     (if autoConnect (config s)
      then Suc (pending_reconnects
                  (case reconnectInterval s of None \<Rightarrow> s | Some h \<Rightarrow> clearTimer h s))
      else pending_reconnects s)"
  by (simp add: on_close_def scheduleReconnect_def setTimer_def emit_def pending_reconnects_def
        clearTimer_def Let_def split: option.splits)

text \<open>
  Claim C4. When a live-mode connection attempt fails, \<open>connect\<close> should emit an
  \<open>error\<close> event and its promise should reject, with no retry unless auto-reconnect is
  configured. On the route module's adapter the promise of \<open>connect\<close> is already
  resolved when the call returns; the failure arrives afterwards as the socket's
  \<open>error\<close> and \<open>close\<close> events, which emit \<open>Error\<close> and \<open>Disconnected\<close> and, with
  auto-reconnect off, arm no timer.
\<close>

theorem connect_resolves_before_failure:
  "fst (connect routes_service) = Resolved () \<and>
   rt_emitted (run [CallConnect, SocketError 0 ''connect ECONNREFUSED'', SocketClose 0]
                 routes_service)
     = [Error ''connect ECONNREFUSED'', Disconnected] \<and>
   rt_timers (run [CallConnect, SocketError 0 ''connect ECONNREFUSED'', SocketClose 0]
                routes_service) = [] \<and>
   \<not> isConnected (run [CallConnect, SocketError 0 ''connect ECONNREFUSED'', SocketClose 0]
                     routes_service)"
  by (simp add: lifecycle_defs)

lemma disconnect_fields:
  "isConnected (disconnect s) = False"
  "isDemoMode (disconnect s) = False"
  "socket (disconnect s) = None"
  "reconnectInterval (disconnect s) = None"
  "demoInterval (disconnect s) = None"
  by (simp_all add: disconnect_def Let_def clearTimer_def closeSocket_def split: option.splits)

lemma disconnect_frame:
  "config (disconnect s) = config s"
  "currentData (disconnect s) = currentData s"
  "rt_emitted (disconnect s) = rt_emitted s"
  "rt_sent (disconnect s) = rt_sent s"
  "rt_ctor_throws (disconnect s) = rt_ctor_throws s"
  by (simp_all add: disconnect_def Let_def clearTimer_def closeSocket_def split: option.splits)

lemma disconnect_nothing_held:
  assumes "reconnectInterval t = None" "demoInterval t = None" "socket t = None"
  shows "disconnect t = t\<lparr>isConnected := False, isDemoMode := False\<rparr>"
  using assms by (simp add: disconnect_def)

lemma disconnect_twice: "disconnect (disconnect s) = disconnect s"
proof -
  have "disconnect (disconnect s) = (disconnect s)\<lparr>isConnected := False, isDemoMode := False\<rparr>"
    by (rule disconnect_nothing_held) (simp_all add: disconnect_fields)
  also have "\<dots> = disconnect s"
    by (simp add: disconnect_fields)
  finally show ?thesis .
qed

lemma disconnect_timers_length: "length (rt_timers (disconnect s)) = length (rt_timers s)"
  by (simp add: disconnect_def Let_def clearTimer_def closeSocket_def split: option.splits)

lemma disconnect_timer_armed:
  assumes "h < length (rt_timers s)"
  shows "snd (rt_timers (disconnect s) ! h) =
           (snd (rt_timers s ! h) \<and> reconnectInterval s \<noteq> Some h \<and> demoInterval s \<noteq> Some h)"
  using assms
  by (auto simp add: disconnect_def Let_def clearTimer_def closeSocket_def nth_list_update
      split: option.splits)

lemma disconnect_closes_held_socket:
  assumes "socket s = Some h"
  shows "readyState (disconnect s) h \<noteq> Some CONNECTING"
    and "readyState (disconnect s) h \<noteq> Some OPEN"
  using assms
  by (auto simp add: disconnect_def Let_def clearTimer_def closeSocket_def readyState_def
      split: option.splits)

lemma disconnect_tracked_disarms:
  assumes "tracked s" "t \<in> set (rt_timers (disconnect s))"
  shows "\<not> snd t"
proof -
  from assms(2) obtain h where h: "h < length (rt_timers s)" "t = rt_timers (disconnect s) ! h"
    by (auto simp add: in_set_conv_nth disconnect_timers_length)
  show ?thesis
  proof
    assume "snd t"
    with h have armed: "snd (rt_timers s ! h)"
      and free: "reconnectInterval s \<noteq> Some h" "demoInterval s \<noteq> Some h"
      by (simp_all add: disconnect_timer_armed)
    from assms(1) h(1) armed have "reconnectInterval s = Some h \<or> demoInterval s = Some h"
      by (simp add: tracked_def)
    with free show False by simp
  qed
qed

lemma no_armed_timer_counts:
  assumes "\<And>t. t \<in> set (rt_timers s) \<Longrightarrow> \<not> snd t"
  shows "running_generators s = 0" "pending_reconnects s = 0"
  using assms
  by (force simp add: running_generators_def filter_empty_conv,
      force simp add: pending_reconnects_def filter_empty_conv)

text \<open>
  What \<open>disconnect\<close> achieves from every state: it returns (it has no error outcome)
  with the adapter disconnected and holding no socket, no reconnect timer and no
  generator; the socket it held is no longer connecting or open; a second \<open>disconnect\<close>
  changes nothing, in the adapter or in the runtime. Where the adapter tracks its timers
  no timer of the runtime is armed afterwards.
\<close>

lemma disconnect_guarantees:
  "isConnected (disconnect s) = False \<and>
   socket (disconnect s) = None \<and>
   reconnectInterval (disconnect s) = None \<and>
   demoInterval (disconnect s) = None \<and>
   (\<forall>h. socket s = Some h \<longrightarrow>
        readyState (disconnect s) h \<noteq> Some CONNECTING \<and>
        readyState (disconnect s) h \<noteq> Some OPEN) \<and>
   disconnect (disconnect s) = disconnect s \<and>
   (tracked s \<longrightarrow>
      running_generators (disconnect s) = 0 \<and> pending_reconnects (disconnect s) = 0)"
  using disconnect_tracked_disarms [of s] disconnect_closes_held_socket [of s]
  by (simp add: disconnect_fields disconnect_twice no_armed_timer_counts)

lemma disconnect_guarantees_examples:
  "tracked routes_service \<and>
   tracked (run [CallConnect, SocketOpen 0] routes_service) \<and>
   tracked (run [CallEnableDemoMode, CallConnect] routes_service) \<and>
   tracked (run [CallConnect, CallDisconnect] routes_service) \<and>
   readyState (disconnect (run [CallConnect, SocketOpen 0] routes_service)) 0 = Some CLOSING \<and>
   running_generators (run [CallEnableDemoMode, CallConnect] routes_service) = 1 \<and>
   running_generators (disconnect (run [CallEnableDemoMode, CallConnect] routes_service)) = 0 \<and>
   pending_reconnects (disconnect (run [CallEnableDemoMode, CallConnect] routes_service)) = 0"
proof -
  have named: "tracked routes_service"
    "tracked (run [CallConnect, SocketOpen 0] routes_service)"
    "tracked (run [CallEnableDemoMode, CallConnect] routes_service)"
    "tracked (run [CallConnect, CallDisconnect] routes_service)"
    by (simp_all add: tracked_def lifecycle_defs)
  have closing:
    "readyState (disconnect (run [CallConnect, SocketOpen 0] routes_service)) 0 = Some CLOSING"
    by (simp add: lifecycle_defs)
  have before: "running_generators (run [CallEnableDemoMode, CallConnect] routes_service) = 1"
    by (simp add: lifecycle_defs running_generators_def)
  from disconnect_guarantees [of "run [CallEnableDemoMode, CallConnect] routes_service"]
    named closing before
  show ?thesis by simp
qed

text \<open>
  Claim C6. From any adapter state, \<open>disconnect\<close> should leave the adapter disconnected
  with no reconnect timer and no generator running. After \<open>enableDemoMode\<close> and two
  calls of \<open>connect\<close> the adapter is in demo mode with two generators, of which it
  holds only the second handle. \<open>disconnect\<close> then resets every field and reports
  disconnected, but disarms the second generator only: the first is still running, and
  when its interval fires next the disconnected adapter emits a reading.
\<close>

theorem disconnect_leaves_orphan_generator:
  "\<not> isConnected (run [CallEnableDemoMode, CallConnect, CallConnect, CallDisconnect]
                     routes_service) \<and>
   demoInterval (run [CallEnableDemoMode, CallConnect, CallConnect, CallDisconnect]
                   routes_service) = None \<and>
   rt_timers (run [CallEnableDemoMode, CallConnect, CallConnect, CallDisconnect] routes_service)
     = [(DemoInterval, True), (DemoInterval, False)] \<and>
   running_generators
     (disconnect (run [CallEnableDemoMode, CallConnect, CallConnect] routes_service)) = 1 \<and>
   rt_emitted
     (run [CallEnableDemoMode, CallConnect, CallConnect, CallDisconnect, TimerFires 0 tick0]
        routes_service)
     = [Connected, Connected,
        Data \<lparr>attention = 30, meditation = 87, signalQuality = 85, timestamp = 0\<rparr>]"
  by (simp add: lifecycle_defs running_generators_def generateDemoData_def
        demo_reading_def tick0_def js_round_def)

lemma double_connect_not_tracked:
  "\<not> tracked (run [CallEnableDemoMode, CallConnect, CallConnect] routes_service)"
  by (simp add: lifecycle_defs tracked_def)

text \<open>
  Claim C10. From every adapter state \<open>disconnect\<close> resets the demo-mode flag to false
  (and leaves the configuration, with its own demo-mode entry, as it was), so a
  \<open>connect\<close> right after it takes the live branch: it constructs a socket, which becomes
  the adapter's socket in state \<open>CONNECTING\<close>, and starts no generator; only where the
  constructor itself throws does it reject instead.
\<close>

theorem disconnect_resets_demo_flag:
  "isDemoMode (disconnect s) = False \<and>
   config (disconnect s) = config s \<and>
   connect (disconnect s) =
     (if rt_ctor_throws s then (Rejected ''WebSocket constructor threw'', disconnect s)
      else (Resolved (),
            (disconnect s)\<lparr>socket := Some (length (rt_sockets (disconnect s))),
                            rt_sockets := rt_sockets (disconnect s) @ [CONNECTING]\<rparr>))"
  by (simp add: disconnect_fields disconnect_frame connect_def)

theorem disconnect_resets_demo_flag_witness:
  "isDemoMode (run [CallEnableDemoMode, CallConnect] routes_service) \<and>
   demoMode (config (run [CallEnableDemoMode, CallConnect, CallDisconnect] routes_service)) \<and>
   \<not> rt_ctor_throws (run [CallEnableDemoMode, CallConnect] routes_service) \<and>
   \<not> isDemoMode (run [CallEnableDemoMode, CallConnect, CallDisconnect] routes_service) \<and>
   socket (run [CallEnableDemoMode, CallConnect, CallDisconnect, CallConnect] routes_service)
     = Some 0 \<and>
   rt_sockets (run [CallEnableDemoMode, CallConnect, CallDisconnect, CallConnect] routes_service)
     = [CONNECTING] \<and>
   rt_timers (run [CallEnableDemoMode, CallConnect, CallDisconnect, CallConnect] routes_service)
     = [(DemoInterval, False)]"
proof -
  let ?s = "run [CallEnableDemoMode, CallConnect] routes_service"
  have pre: "isDemoMode ?s" "\<not> rt_ctor_throws ?s" "rt_sockets (disconnect ?s) = []"
    "rt_timers (disconnect ?s) = [(DemoInterval, False)]" "demoMode (config ?s)"
    by (simp_all add: lifecycle_defs)
  from disconnect_resets_demo_flag [of ?s] pre show ?thesis
    by simp
qed

subsection \<open>Availability probe\<close>

lemma probe_settled_stays:
  "p_settled p = Some r \<Longrightarrow> p_settled (probe_deliver i p) = Some r"
  by (cases i)
     (simp_all add: probe_on_timeout_def probe_on_open_def probe_on_error_def
        probe_resolve_def probe_close_def)

lemma probe_run_settled_stays:
  "p_settled p = Some r \<Longrightarrow> p_settled (probe_run is p) = Some r"
  by (induction "is" arbitrary: p) (simp_all add: probe_settled_stays)

lemma probe_first_event:
  "p_settled (probe_deliver i probe_start) = Some (Resolved (i = ProbeOpen))"
  "p_closeCalls (probe_deliver i probe_start) = (if i = ProbeError then 0 else 1)"
  "p_socket (probe_deliver i probe_start) = Some CLOSING"
  by (cases i;
      simp add: probe_start_def probe_on_timeout_def probe_on_open_def probe_on_error_def
        probe_resolve_def probe_close_def)+

lemma probe_settled_by_first:
  "p_settled (checkThinkGearConnector False (i # is)) = Some (Resolved (i = ProbeOpen))"
  by (simp add: checkThinkGearConnector_def probe_run_settled_stays probe_first_event)

lemma probe_pending_only_at_start:
  "p_settled (checkThinkGearConnector False is) = None \<Longrightarrow> is = []"
  by (cases "is") (simp_all add: probe_settled_by_first)

lemma probe_timeout_stays_cleared:
  "\<not> p_timeout p \<Longrightarrow> \<not> p_timeout (probe_deliver i p)"
  by (cases i)
     (simp_all add: probe_on_timeout_def probe_on_open_def probe_on_error_def
        probe_resolve_def probe_close_def split: option.splits)

lemma probe_run_timeout_stays_cleared:
  "\<not> p_timeout p \<Longrightarrow> \<not> p_timeout (probe_run is p)"
  by (induction "is" arbitrary: p) (simp_all add: probe_timeout_stays_cleared)

lemma probe_socket_stays_closing:
  "p_socket p = Some CLOSING \<Longrightarrow> p_socket (probe_deliver i p) = Some CLOSING"
  by (cases i)
     (simp_all add: probe_on_timeout_def probe_on_open_def probe_on_error_def
        probe_resolve_def probe_close_def split: option.splits)

lemma probe_run_socket_stays_closing:
  "p_socket p = Some CLOSING \<Longrightarrow> p_socket (probe_run is p) = Some CLOSING"
  by (induction "is" arbitrary: p) (simp_all add: probe_socket_stays_closing)

lemma probe_first_event_timeout:
  "\<not> p_timeout (probe_deliver i probe_start)"
  by (cases i;
      simp add: probe_start_def probe_on_timeout_def probe_on_open_def probe_on_error_def
        probe_resolve_def probe_close_def)

text \<open>
  How the connection gets closed: the open and the timeout handler call \<open>close\<close>; the
  error handler does not, there the socket that reported the error is already closing.
\<close>

lemma probe_close_calls:
  "p_closeCalls (checkThinkGearConnector False [i]) = (if i = ProbeError then 0 else 1)"
  by (simp add: checkThinkGearConnector_def probe_first_event del: probe_deliver.simps)

text \<open>
  Claim C7. The probe always resolves to a boolean and never rejects: whichever of
  timeout, open and error comes first settles the promise, with true exactly for open, and
  no later event changes it; a throwing constructor resolves false. As long as the promise
  is pending the timeout is armed, so the promise is settled by the time the timeout
  fires. In each of the three outcomes the timeout is no longer armed and the probe
  connection is closed (closing, neither connecting nor open), and both stay so whatever
  follows.
\<close>

theorem probe_always_resolves:
  "(\<forall>i is. p_settled (checkThinkGearConnector False (i # is)) = Some (Resolved (i = ProbeOpen))) \<and>
   (\<forall>is. p_settled (checkThinkGearConnector True is) = Some (Resolved False)) \<and>
   (\<forall>throws is e. p_settled (checkThinkGearConnector throws is) \<noteq> Some (Rejected e)) \<and>
   (\<forall>is. p_settled (checkThinkGearConnector False is) = None \<longrightarrow>
          p_timeout (checkThinkGearConnector False is)) \<and>
   (\<forall>i is. \<not> p_timeout (checkThinkGearConnector False (i # is))) \<and>
   (\<forall>i is. p_socket (checkThinkGearConnector False (i # is)) = Some CLOSING) \<and>
   (\<forall>is. p_socket (checkThinkGearConnector True is) = None)"
proof -
  have never: "p_settled (checkThinkGearConnector throws is) \<noteq> Some (Rejected e)"
    for throws "is" e
  proof (cases throws)
    case True
    then show ?thesis by (simp add: checkThinkGearConnector_def)
  next
    case False
    show ?thesis
    proof (cases "is")
      case Nil
      with False show ?thesis by (simp add: checkThinkGearConnector_def probe_start_def)
    next
      case (Cons i rest)
      with False show ?thesis by (simp add: probe_settled_by_first)
    qed
  qed
  have armed: "p_timeout (checkThinkGearConnector False is)"
    if "p_settled (checkThinkGearConnector False is) = None" for "is"
    using probe_pending_only_at_start [OF that]
    by (simp add: checkThinkGearConnector_def probe_start_def)
  have cleared: "\<not> p_timeout (checkThinkGearConnector False (i # is))" for i "is"
    using probe_run_timeout_stays_cleared [OF probe_first_event_timeout [of i], of "is"]
    by (simp add: checkThinkGearConnector_def del: probe_deliver.simps)
  have closed: "p_socket (checkThinkGearConnector False (i # is)) = Some CLOSING" for i "is"
    using probe_run_socket_stays_closing [OF probe_first_event(3) [of i], of "is"]
    by (simp add: checkThinkGearConnector_def del: probe_deliver.simps)
  have thrown: "p_settled (checkThinkGearConnector True is) = Some (Resolved False)"
    "p_socket (checkThinkGearConnector True is) = None" for "is"
    by (simp_all add: checkThinkGearConnector_def)
  from probe_settled_by_first thrown never armed cleared closed show ?thesis by blast
qed

theorem probe_always_resolves_witness:
  "p_settled (checkThinkGearConnector False []) = None \<and>
   p_timeout (checkThinkGearConnector False []) \<and>
   p_socket (checkThinkGearConnector False []) = Some CONNECTING \<and>
   p_settled (checkThinkGearConnector False [ProbeOpen]) = Some (Resolved True) \<and>
   p_settled (checkThinkGearConnector False [ProbeError]) = Some (Resolved False) \<and>
   p_settled (checkThinkGearConnector False [ProbeTimeout]) = Some (Resolved False) \<and>
   p_socket (checkThinkGearConnector False [ProbeOpen]) = Some CLOSING \<and>
   p_socket (checkThinkGearConnector False [ProbeError]) = Some CLOSING \<and>
   p_socket (checkThinkGearConnector False [ProbeTimeout]) = Some CLOSING \<and>
   \<not> p_timeout (checkThinkGearConnector False [ProbeError, ProbeTimeout]) \<and>
   p_closeCalls (checkThinkGearConnector False [ProbeError, ProbeTimeout]) = 0"
proof -
  have pending: "p_settled (checkThinkGearConnector False []) = None"
    "p_socket (checkThinkGearConnector False []) = Some CONNECTING"
    by (simp_all add: checkThinkGearConnector_def probe_start_def)
  have calls: "p_closeCalls (checkThinkGearConnector False [ProbeError, ProbeTimeout]) = 0"
    by (simp add: checkThinkGearConnector_def probe_start_def probe_on_error_def
          probe_resolve_def)
  from pending probe_always_resolves have "p_timeout (checkThinkGearConnector False [])"
    by blast
  with pending calls probe_always_resolves show ?thesis
    by simp
qed

end
